theory Spec2Isabelle
  imports Main "HOL-Library.Word"
begin

unbundle bit_operations_syntax

section \<open>The camera video sink of libvhal: data model\<close>

text \<open>
  The development embeds \<^verbatim>\<open>video_sink.h\<close> and \<^verbatim>\<open>video_sink_impl.h\<close>: the control
  record exchanged with the Camera VHal, the two send operations of
  \<^verbatim>\<open>VideoSink::Impl\<close> and the body of its talker thread.

  Machine types are those of an LP64 platform (the code includes \<^verbatim>\<open>sys/poll.h\<close>):
  \<^verbatim>\<open>size_t\<close> and \<^verbatim>\<open>ssize_t\<close> are 64-bit words (\<open>-1\<close> is the word of all ones),
  \<^verbatim>\<open>int\<close> and the enumerations are 32-bit words, \<^verbatim>\<open>short\<close> is a 16-bit word. The byte
  order of the platform is a parameter.
\<close>

type_synonym byte = "8 word"
type_synonym c_int = "32 word"
type_synonym c_short = "16 word"
type_synonym size_t = "64 word"
type_synonym ssize_t = "64 word"

datatype endian = LittleEndian | BigEndian

subsection \<open>Object representations\<close>

text \<open>
  \<^verbatim>\<open>(uint8_t*)&x\<close> and \<^verbatim>\<open>reinterpret_cast<uint8_t*>(&x)\<close> view an object as its bytes.
  \<open>le_bytes\<close> lists the bytes of a word from the least significant one, \<open>le_word\<close>
  reads them back; \<open>object_bytes\<close> and \<open>object_word\<close> do so in the platform's order.
\<close>

definition le_bytes :: "'a::len word \<Rightarrow> byte list" where
  "le_bytes w = map (\<lambda>i. ucast (drop_bit (8 * i) w)) [0..<LENGTH('a) div 8]"

definition le_word :: "byte list \<Rightarrow> 'a::len word" where
  "le_word bs = word_of_int (horner_sum uint (2 ^ 8) bs)"

definition object_bytes :: "endian \<Rightarrow> 'a::len word \<Rightarrow> byte list" where
  "object_bytes e w = (case e of LittleEndian \<Rightarrow> le_bytes w | BigEndian \<Rightarrow> rev (le_bytes w))"

definition object_word :: "endian \<Rightarrow> byte list \<Rightarrow> 'a::len word" where
  "object_word e bs = (case e of LittleEndian \<Rightarrow> le_word bs | BigEndian \<Rightarrow> le_word (rev bs))"

subsection \<open>Enumerations and the control record\<close>

text \<open>
  The four \<^verbatim>\<open>enum class\<close> types have underlying type \<^verbatim>\<open>int\<close>. A record read from the
  socket is not validated, so a field holds whatever 32-bit value arrived: the fields of
  the records below are the underlying words, and the enumerators are given with the
  values the header assigns them.
\<close>

datatype VideoCodecType = kH264 | kI420

fun VideoCodecType_val :: "VideoCodecType \<Rightarrow> c_int" where
  "VideoCodecType_val kH264 = 0"
| "VideoCodecType_val kI420 = 1"

datatype FrameResolution = k480p | k720p | k1080p

fun FrameResolution_val :: "FrameResolution \<Rightarrow> c_int" where
  "FrameResolution_val k480p = 0"
| "FrameResolution_val k720p = 1"
| "FrameResolution_val k1080p = 2"

datatype Command = kOpen | kClose | kNone

fun Command_val :: "Command \<Rightarrow> c_int" where
  "Command_val kOpen = 11"
| "Command_val kClose = 12"
| "Command_val kNone = 13"

datatype VHalVersion = kV1 | kV2

fun VHalVersion_val :: "VHalVersion \<Rightarrow> c_int" where
  "VHalVersion_val kV1 = 0"
| "VHalVersion_val kV2 = 1"

record VideoParams =
  codec_type :: c_int
  resolution :: c_int
  reserved :: "c_int list"

record CtrlMessage =
  version :: c_int
  cmd :: c_int
  video_params :: VideoParams

text \<open>
  \<^verbatim>\<open>sizeof(VideoSink::CtrlMessage)\<close>: two enumerations, then \<^verbatim>\<open>VideoParams\<close> with two
  enumerations and \<^verbatim>\<open>uint32_t reserved[4]\<close>; every member is four bytes wide and
  four-byte aligned, so there is no padding.
\<close>

definition sizeof_CtrlMessage :: size_t where
  "sizeof_CtrlMessage = 32"

text \<open>
  The record as declared by \<^verbatim>\<open>VideoSink::CtrlMessage ctrl_msg;\<close>: the default member
  initialisers, and \<^verbatim>\<open>reserved\<close>, which the source leaves uninitialised, as zeros (the
  choice is invisible whenever a receive stores all 32 bytes).
\<close>

definition default_CtrlMessage :: CtrlMessage where
  "default_CtrlMessage =
     \<lparr>version = VHalVersion_val kV2, cmd = Command_val kNone,
      video_params = \<lparr>codec_type = VideoCodecType_val kH264,
                      resolution = FrameResolution_val k480p,
                      reserved = [0, 0, 0, 0]\<rparr>\<rparr>"

definition CtrlMessage_bytes :: "endian \<Rightarrow> CtrlMessage \<Rightarrow> byte list" where
  "CtrlMessage_bytes e m =
     object_bytes e (version m) @ object_bytes e (cmd m) @
     object_bytes e (codec_type (video_params m)) @
     object_bytes e (resolution (video_params m)) @
     concat (map (object_bytes e) (take 4 (reserved (video_params m))))"

definition field_at :: "endian \<Rightarrow> nat \<Rightarrow> byte list \<Rightarrow> c_int" where
  "field_at e off buf = object_word e (take 4 (drop off buf))"

definition CtrlMessage_of_bytes :: "endian \<Rightarrow> byte list \<Rightarrow> CtrlMessage" where
  "CtrlMessage_of_bytes e buf =
     \<lparr>version = field_at e 0 buf, cmd = field_at e 4 buf,
      video_params = \<lparr>codec_type = field_at e 8 buf,
                      resolution = field_at e 12 buf,
                      reserved = map (\<lambda>i. field_at e (16 + 4 * i) buf) [0..<4]\<rparr>\<rparr>"

text \<open>
  What a buffer holds after a receive stored \<open>data\<close> at its start: the stored bytes,
  then what was there before, cut to the buffer's size.
\<close>

definition store_bytes :: "byte list \<Rightarrow> byte list \<Rightarrow> byte list" where
  "store_bytes data buf = take (length buf) (data @ drop (length data) buf)"

section \<open>Collaborators and observations\<close>

text \<open>
  \<^verbatim>\<open>IStreamSocketClient\<close> is an interface whose implementations (Unix and vsock stream
  sockets) are not part of the embedded sources, and \<^verbatim>\<open>poll\<close> is the operating system's.
  Both are parameters: \<open>'w\<close> is the state of the socket client together with the kernel
  socket and the peer behind it, and an \<open>env\<close> gives each operation as a function on it.
  \<open>Send\<close> takes the bytes at the pointer and the length argument. \<open>Recv\<close> takes the length
  argument and returns the count, the message and the bytes it stored in the buffer.
  \<open>poll\<close> takes descriptor, requested events and timeout and returns its result, the
  \<^verbatim>\<open>revents\<close> it stored and \<^verbatim>\<open>errno\<close>.
\<close>

record 'w env =
  byte_order :: endian
  Connected :: "'w \<Rightarrow> bool"
  Connect :: "'w \<Rightarrow> (bool \<times> string) \<times> 'w"
  GetNativeSocketFd :: "'w \<Rightarrow> c_int"
  Send :: "byte list \<Rightarrow> size_t \<Rightarrow> 'w \<Rightarrow> (ssize_t \<times> string) \<times> 'w"
  Recv :: "size_t \<Rightarrow> 'w \<Rightarrow> (ssize_t \<times> string \<times> byte list) \<times> 'w"
  Reset :: "'w \<Rightarrow> 'w"
  NeedConnectionReset :: "'w \<Rightarrow> bool"
  ClearReset :: "'w \<Rightarrow> 'w"
  poll :: "c_int \<Rightarrow> c_short \<Rightarrow> c_int \<Rightarrow> 'w \<Rightarrow> (c_int \<times> c_short \<times> c_int) \<times> 'w"

text \<open>
  Every call the code makes on a collaborator is recorded, in order: the calls on the
  socket client, \<^verbatim>\<open>poll\<close>, \<^verbatim>\<open>this_thread::sleep_for\<close> (in milliseconds), a line written
  to \<^verbatim>\<open>cout\<close>, and the invocation of the registered callback \<open>'h\<close> with a record.
\<close>

datatype 'h event =
    CallConnected
  | CallConnect
  | CallGetNativeSocketFd
  | CallSend "byte list" size_t
  | CallRecv size_t
  | CallReset
  | CallNeedConnectionReset
  | CallClearReset
  | CallPoll c_int c_short c_int
  | SleepFor nat
  | Cout string
  | Invoke 'h CtrlMessage

text \<open>
  The members of \<^verbatim>\<open>VideoSink::Impl\<close>: \<^verbatim>\<open>callback_\<close>, \<^verbatim>\<open>socket_client_\<close> and
  \<^verbatim>\<open>should_continue_\<close>, written here with the prefix \<open>m_\<close> (an identifier cannot end
  in an underscore). An empty \<^verbatim>\<open>std::function\<close> is \<open>None\<close>. The thread object is not a
  field: the thread's body is \<open>talker_thread\<close> below. \<open>trace\<close> is the record of
  observations.
\<close>

record ('w, 'h) Impl =
  m_callback :: "'h option"
  m_socket_client :: 'w
  m_should_continue :: bool
  trace :: "'h event list"

definition observe :: "'h event \<Rightarrow> ('w, 'h) Impl \<Rightarrow> ('w, 'h) Impl" where
  "observe ev s = s\<lparr>trace := trace s @ [ev]\<rparr>"

definition cout :: "string \<Rightarrow> ('w, 'h) Impl \<Rightarrow> ('w, 'h) Impl" where
  "cout line s = observe (Cout line) s"

definition sleep_for :: "nat \<Rightarrow> ('w, 'h) Impl \<Rightarrow> ('w, 'h) Impl" where
  "sleep_for ms s = observe (SleepFor ms) s"

definition call_Connected :: "'w env \<Rightarrow> ('w, 'h) Impl \<Rightarrow> bool \<times> ('w, 'h) Impl" where
  "call_Connected E s = (Connected E (m_socket_client s), observe CallConnected s)"

definition call_Connect :: "'w env \<Rightarrow> ('w, 'h) Impl \<Rightarrow> (bool \<times> string) \<times> ('w, 'h) Impl" where
  "call_Connect E s =
     (case Connect E (m_socket_client s) of
        (r, w) \<Rightarrow> (r, observe CallConnect (s\<lparr>m_socket_client := w\<rparr>)))"

definition call_GetNativeSocketFd :: "'w env \<Rightarrow> ('w, 'h) Impl \<Rightarrow> c_int \<times> ('w, 'h) Impl" where
  "call_GetNativeSocketFd E s =
     (GetNativeSocketFd E (m_socket_client s), observe CallGetNativeSocketFd s)"

definition call_Send ::
  "'w env \<Rightarrow> byte list \<Rightarrow> size_t \<Rightarrow> ('w, 'h) Impl \<Rightarrow> (ssize_t \<times> string) \<times> ('w, 'h) Impl" where
  "call_Send E buf len s =
     (case Send E buf len (m_socket_client s) of
        (r, w) \<Rightarrow> (r, observe (CallSend buf len) (s\<lparr>m_socket_client := w\<rparr>)))"

definition call_Recv ::
  "'w env \<Rightarrow> size_t \<Rightarrow> ('w, 'h) Impl \<Rightarrow> (ssize_t \<times> string \<times> byte list) \<times> ('w, 'h) Impl" where
  "call_Recv E len s =
     (case Recv E len (m_socket_client s) of
        (r, w) \<Rightarrow> (r, observe (CallRecv len) (s\<lparr>m_socket_client := w\<rparr>)))"

definition call_Reset :: "'w env \<Rightarrow> ('w, 'h) Impl \<Rightarrow> ('w, 'h) Impl" where
  "call_Reset E s = observe CallReset (s\<lparr>m_socket_client := Reset E (m_socket_client s)\<rparr>)"

definition call_poll ::
  "'w env \<Rightarrow> c_int \<Rightarrow> c_short \<Rightarrow> c_int \<Rightarrow> ('w, 'h) Impl
     \<Rightarrow> (c_int \<times> c_short \<times> c_int) \<times> ('w, 'h) Impl" where
  "call_poll E fd events timeout s =
     (case poll E fd events timeout (m_socket_client s) of
        (r, w) \<Rightarrow> (r, observe (CallPoll fd events timeout) (s\<lparr>m_socket_client := w\<rparr>)))"

section \<open>The operations of \<^verbatim>\<open>VideoSink::Impl\<close>\<close>

text \<open>The state the constructor leaves, before the thread has run.\<close>

definition Impl_new :: "'w \<Rightarrow> ('w, 'h) Impl" where
  "Impl_new socket_client =
     \<lparr>m_callback = None, m_socket_client = socket_client, m_should_continue = True, trace = []\<rparr>"

definition RegisterCallback :: "'h option \<Rightarrow> ('w, 'h) Impl \<Rightarrow> bool \<times> ('w, 'h) Impl" where
  "RegisterCallback callback s = (True, s\<lparr>m_callback := callback\<rparr>)"

definition sizeof_size_t :: size_t where
  "sizeof_size_t = 8"

definition SendDataPacket ::
  "'w env \<Rightarrow> byte list \<Rightarrow> size_t \<Rightarrow> ('w, 'h) Impl \<Rightarrow> (ssize_t \<times> string) \<times> ('w, 'h) Impl" where
  "SendDataPacket E packet sz s =
     (case call_Send E (object_bytes (byte_order E) sz) sizeof_size_t s of
        (response, s1) \<Rightarrow>
          if fst response = - 1 then
            ((fst response, ''Error in writing payload size to Camera VHal: '' @ snd response),
             call_Reset E s1)
          else
            (case call_Send E packet sz s1 of
               (response, s2) \<Rightarrow>
                 if fst response = - 1 then
                   ((fst response, ''Error in writing payload to Camera VHal: '' @ snd response),
                    call_Reset E s2)
                 else (response, s2)))"

definition SendRawPacket ::
  "'w env \<Rightarrow> byte list \<Rightarrow> size_t \<Rightarrow> ('w, 'h) Impl \<Rightarrow> (ssize_t \<times> string) \<times> ('w, 'h) Impl" where
  "SendRawPacket E packet sz s =
     (case call_Send E packet sz s of
        (response, s1) \<Rightarrow>
          if fst response = - 1 then
            ((fst response, ''Error in writing payload to Camera VHal: '' @ snd response),
             call_Reset E s1)
          else (response, s1))"

section \<open>The talker thread\<close>

text \<open>
  An exception that leaves the thread's function is not caught anywhere, so
  \<^verbatim>\<open>std::terminate\<close> ends the process. Two exceptions can arise in the body:
  \<^verbatim>\<open>std::system_error\<close> thrown with \<^verbatim>\<open>errno\<close>, and \<^verbatim>\<open>std::bad_function_call\<close>, which
  calling an empty \<^verbatim>\<open>std::function\<close> throws.
\<close>

datatype fault = system_error c_int | bad_function_call

text \<open>How one pass through the body of the \<^verbatim>\<open>do { ... } while (true)\<close> loop ends.\<close>

datatype flow = Continue | Break | Throw fault

text \<open>How the thread's function ends: it returns, or the process is terminated.\<close>

datatype outcome = Returned | Terminated fault

definition POLLIN :: c_short where
  "POLLIN = 1"

definition timeout_ms :: c_int where
  "timeout_ms = 1 * 1000"

text \<open>
  The connect step at the head of the outer loop's body. The result is \<open>False\<close> where the
  source executes \<^verbatim>\<open>continue\<close> after the sleep, and \<open>True\<close> where control reaches the
  line \<^verbatim>\<open>// connected ...\<close>.
\<close>

definition connect_step :: "'w env \<Rightarrow> ('w, 'h) Impl \<Rightarrow> bool \<times> ('w, 'h) Impl" where
  "connect_step E s =
     (case call_Connected E s of
        (is_connected, s1) \<Rightarrow>
          if \<not> is_connected then
            (case call_Connect E s1 of
               ((connected, error_msg), s2) \<Rightarrow>
                 if \<not> connected then
                   (False,
                    sleep_for 33
                      (cout (''Failed to connect to VHal: '' @ error_msg @
                             ''. Retry after 3ms...'' @ [CHR 0x0A]) s2))
                 else (True, s2))
          else (True, s1))"

text \<open>
  One pass through the body of the inner loop: the wait for readiness and, on input, the
  read of one control record and its dispatch. The handler is application code; its
  invocation is recorded and it is taken to return.
\<close>

definition poll_pass :: "'w env \<Rightarrow> c_int \<Rightarrow> ('w, 'h) Impl \<Rightarrow> flow \<times> ('w, 'h) Impl" where
  "poll_pass E fd s =
     (case call_poll E fd POLLIN timeout_ms s of
        ((ret, revents, errno), s1) \<Rightarrow>
          if ret = - 1 then (Throw (system_error errno), s1)
          else if ret = 0 then (Continue, s1)
          else if revents AND POLLIN \<noteq> 0 then
            (case call_Recv E sizeof_CtrlMessage
                    (cout (''Camera VHal has some message for us!'' @ [CHR 0x0A]) s1) of
               ((received, recv_err_msg, data), s2) \<Rightarrow>
                 let ctrl_msg =
                       CtrlMessage_of_bytes (byte_order E)
                         (store_bytes data
                            (CtrlMessage_bytes (byte_order E) default_CtrlMessage))
                 in
                   if received \<noteq> sizeof_CtrlMessage then
                     (Break,
                      call_Reset E
                        (cout (''Failed to read message from VideoSink: '' @ recv_err_msg @
                               '', reset the connection.'' @ [CHR 0x0A]) s2))
                   else
                     (case m_callback s2 of
                        None \<Rightarrow> (Throw bad_function_call, s2)
                      | Some h \<Rightarrow> (Continue, observe (Invoke h ctrl_msg) s2)))
          else (Continue, s1))"

text \<open>
  The inner loop. It has no exit condition of its own, so the model counts passes: with
  \<open>n\<close> passes allowed the result is \<open>Some\<close> of how the loop was left (only \<open>Break\<close> or
  \<open>Throw\<close>), or \<open>None\<close> when the loop is still running after \<open>n\<close> passes.
\<close>

fun reader_loop ::
  "'w env \<Rightarrow> c_int \<Rightarrow> nat \<Rightarrow> ('w, 'h) Impl \<Rightarrow> flow option \<times> ('w, 'h) Impl" where
  "reader_loop E fd 0 s = (None, s)"
| "reader_loop E fd (Suc n) s =
     (case poll_pass E fd s of
        (Continue, s1) \<Rightarrow> reader_loop E fd n s1
      | (Break, s1) \<Rightarrow> (Some Break, s1)
      | (Throw f, s1) \<Rightarrow> (Some (Throw f), s1))"

text \<open>
  What follows the inner loop: after \<^verbatim>\<open>break\<close> the outer loop goes on (\<open>k\<close> is the rest
  of the thread), an exception terminates, and \<open>None\<close> is a thread still inside the loop.
\<close>

definition after_reader ::
  "(('w, 'h) Impl \<Rightarrow> outcome option \<times> ('w, 'h) Impl) \<Rightarrow> flow option \<times> ('w, 'h) Impl
     \<Rightarrow> outcome option \<times> ('w, 'h) Impl" where
  "after_reader k r =
     (case r of
        (Some (Throw f), s) \<Rightarrow> (Some (Terminated f), s)
      | (Some _, s) \<Rightarrow> k s
      | (None, s) \<Rightarrow> (None, s))"

text \<open>
  The part of the outer loop's body from \<^verbatim>\<open>// connected ...\<close> to the end of the inner
  loop.
\<close>

definition connected_part ::
  "'w env \<Rightarrow> nat \<Rightarrow> ('w, 'h) Impl \<Rightarrow> flow option \<times> ('w, 'h) Impl" where
  "connected_part E n s =
     (case call_GetNativeSocketFd E (cout ('' Connected to Camera VHal!'' @ [CHR 0x0A]) s) of
        (fd, s1) \<Rightarrow> reader_loop E fd n s1)"

text \<open>
  The thread's function, \<^verbatim>\<open>while (should_continue_) { ... }\<close>. The first argument bounds
  the iterations of the outer loop and the passes of each inner loop; the result is
  \<open>None\<close> when the thread is still running at the bound.
\<close>

fun talker_thread ::
  "'w env \<Rightarrow> nat \<Rightarrow> ('w, 'h) Impl \<Rightarrow> outcome option \<times> ('w, 'h) Impl" where
  "talker_thread E 0 s = (None, s)"
| "talker_thread E (Suc n) s =
     (if \<not> m_should_continue s then (Some Returned, s)
      else
        (case connect_step E s of
           (False, s1) \<Rightarrow> talker_thread E n s1
         | (True, s1) \<Rightarrow> after_reader (talker_thread E n) (connected_part E n s1)))"

text \<open>
  The rest of the thread from a point inside the inner loop on descriptor \<open>fd\<close>.
\<close>

definition thread_in_reader ::
  "'w env \<Rightarrow> c_int \<Rightarrow> nat \<Rightarrow> ('w, 'h) Impl \<Rightarrow> outcome option \<times> ('w, 'h) Impl" where
  "thread_in_reader E fd n s = after_reader (talker_thread E n) (reader_loop E fd n s)"

text \<open>
  The destructor, \<^verbatim>\<open>should_continue_ = false; vhal_talker_thread_.join();\<close>, run while
  the thread is inside the inner loop: the store, then the rest of the thread. \<open>None\<close> is
  a \<^verbatim>\<open>join\<close> that has not returned within the bound.
\<close>

definition destroy_in_reader ::
  "'w env \<Rightarrow> c_int \<Rightarrow> nat \<Rightarrow> ('w, 'h) Impl \<Rightarrow> outcome option \<times> ('w, 'h) Impl" where
  "destroy_in_reader E fd n s = thread_in_reader E fd n (s\<lparr>m_should_continue := False\<rparr>)"

text \<open>The same while the thread is at the head of the outer loop.\<close>

definition destroy_at_head ::
  "'w env \<Rightarrow> nat \<Rightarrow> ('w, 'h) Impl \<Rightarrow> outcome option \<times> ('w, 'h) Impl" where
  "destroy_at_head E n s = talker_thread E n (s\<lparr>m_should_continue := False\<rparr>)"

section \<open>Vocabulary of the properties\<close>

text \<open>The transport writes of a trace, in order: the buffer and the length of each.\<close>

fun sends :: "'h event list \<Rightarrow> (byte list \<times> size_t) list" where
  "sends [] = []"
| "sends (CallSend buf len # evs) = (buf, len) # sends evs"
| "sends (_ # evs) = sends evs"

text \<open>
  A transport whose \<open>Connect\<close> fails \<open>k\<close> times and then succeeds, seen from the state
  \<open>w\<close>: \<open>after_connects E k w\<close> is the state after \<open>k\<close> attempts, and up to the
  succeeding attempt the transport reports that it is not connected.
\<close>

fun after_connects :: "'w env \<Rightarrow> nat \<Rightarrow> 'w \<Rightarrow> 'w" where
  "after_connects E 0 w = w"
| "after_connects E (Suc k) w = after_connects E k (snd (Connect E w))"

fun fails_then_connects :: "'w env \<Rightarrow> nat \<Rightarrow> 'w \<Rightarrow> bool" where
  "fails_then_connects E 0 w \<longleftrightarrow> \<not> Connected E w \<and> fst (fst (Connect E w))"
| "fails_then_connects E (Suc k) w \<longleftrightarrow>
     \<not> Connected E w \<and> \<not> fst (fst (Connect E w)) \<and> fails_then_connects E k (snd (Connect E w))"

text \<open>What the thread is observed to do over \<open>k\<close> failing connect attempts.\<close>

fun retries :: "'w env \<Rightarrow> nat \<Rightarrow> 'w \<Rightarrow> 'h event list" where
  "retries E 0 w = []"
| "retries E (Suc k) w =
     [CallConnected, CallConnect,
      Cout (''Failed to connect to VHal: '' @ snd (fst (Connect E w)) @
            ''. Retry after 3ms...'' @ [CHR 0x0A]),
      SleepFor 33] @ retries E k (snd (Connect E w))"

section \<open>A scripted socket client\<close>

text \<open>
  A test double of the kind a harness hands to the constructor, used for the examples. Its
  state is a connection flag and one list of prepared results per operation; an operation
  takes the next result of its list. With an empty list \<open>Connect\<close> fails, \<open>Send\<close> writes
  everything, \<open>Recv\<close> reads nothing and \<open>poll\<close> times out.
\<close>

record script =
  connected :: bool
  connect_script :: "(bool \<times> string) list"
  send_script :: "(ssize_t \<times> string) list"
  recv_script :: "(ssize_t \<times> string \<times> byte list) list"
  poll_script :: "(c_int \<times> c_short \<times> c_int) list"

definition scripted :: "endian \<Rightarrow> script env" where
  "scripted e =
     \<lparr>byte_order = e,
      Connected = connected,
      Connect = (\<lambda>w. case connect_script w of
                   [] \<Rightarrow> ((False, ''Connection refused''), w)
                 | r # rs \<Rightarrow> (r, w\<lparr>connected := fst r, connect_script := rs\<rparr>)),
      GetNativeSocketFd = (\<lambda>w. 3),
      Send = (\<lambda>buf len w. case send_script w of
                   [] \<Rightarrow> ((len, ''''), w)
                 | r # rs \<Rightarrow> (r, w\<lparr>send_script := rs\<rparr>)),
      Recv = (\<lambda>len w. case recv_script w of
                   [] \<Rightarrow> ((0, ''Connection closed'', []), w)
                 | r # rs \<Rightarrow> (r, w\<lparr>recv_script := rs\<rparr>)),
      Reset = (\<lambda>w. w\<lparr>connected := False\<rparr>),
      NeedConnectionReset = (\<lambda>w. \<not> connected w),
      ClearReset = (\<lambda>w. w),
      poll = (\<lambda>fd events timeout w. case poll_script w of
                   [] \<Rightarrow> ((0, 0, 0), w)
                 | r # rs \<Rightarrow> (r, w\<lparr>poll_script := rs\<rparr>))\<rparr>"

definition online :: script where
  "online = \<lparr>connected = True, connect_script = [], send_script = [], recv_script = [],
             poll_script = []\<rparr>"

definition offline :: script where
  "offline = \<lparr>connected = False, connect_script = [], send_script = [], recv_script = [],
              poll_script = []\<rparr>"

text \<open>
  The record of the spec's example: version "decode in camera vhal", command Open, codec
  H264, resolution 720p.
\<close>

definition open_720p :: CtrlMessage where
  "open_720p =
     \<lparr>version = VHalVersion_val kV2, cmd = Command_val kOpen,
      video_params = \<lparr>codec_type = VideoCodecType_val kH264,
                      resolution = FrameResolution_val k720p,
                      reserved = [0, 0, 0, 0]\<rparr>\<rparr>"

section \<open>Object representations are faithful\<close>

lemma length_le_bytes: "length (le_bytes (w::'a::len word)) = LENGTH('a) div 8"
  by (simp add: le_bytes_def)

lemma bit_le_word:
  "bit (le_word bs :: 'a::len word) n \<longleftrightarrow>
     n < LENGTH('a) \<and> n div 8 < length bs \<and> bit (bs ! (n div 8)) (n mod 8)"
  using bit_horner_sum_uint_exp_iff [where ?'a = 8, of bs n]
  by (simp add: le_word_def bit_word_of_int_iff)

lemma le_word_le_bytes:
  assumes "8 dvd LENGTH('a::len)"
  shows "le_word (le_bytes (w::'a word)) = w"
proof (rule bit_word_eqI)
  fix n assume n: "n < LENGTH('a)"
  from assms n have d: "n div 8 < LENGTH('a) div 8"
    by (metis dvd_div_mult_self less_mult_imp_div_less)
  show "bit (le_word (le_bytes w) :: 'a word) n = bit w n"
    using n d
    by (simp add: bit_le_word length_le_bytes le_bytes_def bit_ucast_iff bit_drop_bit_eq)
qed

lemma le_bytes_le_word:
  assumes "length bs = LENGTH('a::len) div 8"
  shows "le_bytes (le_word bs :: 'a word) = bs"
proof (rule nth_equalityI)
  show "length (le_bytes (le_word bs :: 'a word)) = length bs"
    by (simp add: length_le_bytes assms)
next
  fix i assume "i < length (le_bytes (le_word bs :: 'a word))"
  then have i: "i < LENGTH('a) div 8" by (simp add: length_le_bytes)
  then have i8: "8 * i + 7 < LENGTH('a)" by simp
  show "le_bytes (le_word bs :: 'a word) ! i = bs ! i"
  proof (rule bit_word_eqI)
    fix n assume n: "n < LENGTH(8)"
    then have "n < 8" by simp
    then have "(8 * i + n) div 8 = i" "(8 * i + n) mod 8 = n" "8 * i + n < LENGTH('a)"
      using i8 by simp_all
    then show "bit (le_bytes (le_word bs :: 'a word) ! i) n = bit (bs ! i) n"
      using i n assms
      by (simp add: le_bytes_def bit_ucast_iff bit_drop_bit_eq bit_le_word)
  qed
qed

lemma length_object_bytes: "length (object_bytes e (w::'a::len word)) = LENGTH('a) div 8"
  by (cases e) (simp_all add: object_bytes_def length_le_bytes)

lemma object_word_object_bytes:
  "8 dvd LENGTH('a::len) \<Longrightarrow> object_word e (object_bytes e (w::'a word)) = w"
  by (cases e) (simp_all add: object_word_def object_bytes_def le_word_le_bytes)

lemma object_bytes_object_word:
  "length bs = LENGTH('a::len) div 8 \<Longrightarrow> object_bytes e (object_word e bs :: 'a word) = bs"
  by (cases e) (simp_all add: object_word_def object_bytes_def le_bytes_le_word)

lemma object_bytes_field_at:
  "off + 4 \<le> length buf \<Longrightarrow> object_bytes e (field_at e off buf) = take 4 (drop off buf)"
  by (simp add: field_at_def object_bytes_object_word)

lemma take_drop_chunk: "m = n + k \<Longrightarrow> take k (drop n xs) @ drop m xs = drop n xs"
  by (metis add.commute append_take_drop_id drop_drop)

lemma CtrlMessage_bytes_of_bytes:
  assumes "length data = 32"
  shows "CtrlMessage_bytes e (CtrlMessage_of_bytes e data) = data"
proof -
  have last: "take 4 (drop 28 data) = drop 28 data"
    using assms by simp
  have "CtrlMessage_bytes e (CtrlMessage_of_bytes e data) =
          take 4 (drop 0 data) @ take 4 (drop 4 data) @ take 4 (drop 8 data) @
          take 4 (drop 12 data) @ take 4 (drop 16 data) @ take 4 (drop 20 data) @
          take 4 (drop 24 data) @ take 4 (drop 28 data)"
    using assms
    by (simp add: CtrlMessage_bytes_def CtrlMessage_of_bytes_def object_bytes_field_at upt_rec)
  also have "\<dots> = drop 0 data"
    unfolding last
    by (simp only: take_drop_chunk [of 28 24 4] take_drop_chunk [of 24 20 4]
          take_drop_chunk [of 20 16 4] take_drop_chunk [of 16 12 4] take_drop_chunk [of 12 8 4]
          take_drop_chunk [of 8 4 4] take_drop_chunk [of 4 0 4] semiring_norm)
  finally show ?thesis by simp
qed

lemma length_CtrlMessage_bytes:
  assumes "4 \<le> length (reserved (video_params m))"
  shows "length (CtrlMessage_bytes e m) = 32"
proof -
  have "length (concat (map (object_bytes e) xs)) = 4 * length xs" for xs :: "c_int list"
    by (induction xs) (simp_all add: length_object_bytes)
  with assms show ?thesis
    by (simp add: CtrlMessage_bytes_def length_object_bytes)
qed

lemma store_bytes_full: "length data = length buf \<Longrightarrow> store_bytes data buf = data"
  by (simp add: store_bytes_def)

lemma received_record:
  "length data = 32 \<Longrightarrow>
   CtrlMessage_of_bytes e (store_bytes data (CtrlMessage_bytes e default_CtrlMessage)) =
   CtrlMessage_of_bytes e data"
  by (simp add: store_bytes_full length_CtrlMessage_bytes default_CtrlMessage_def)

section \<open>The send operations, case by case\<close>

lemma sends_append: "sends (xs @ ys) = sends xs @ sends ys"
  by (induction xs rule: sends.induct) simp_all

lemma SendDataPacket_header_failed:
  assumes "Send E (object_bytes (byte_order E) sz) sizeof_size_t (m_socket_client s) =
             ((- 1, msg), w)"
  shows "SendDataPacket E packet sz s =
           ((- 1, ''Error in writing payload size to Camera VHal: '' @ msg),
            s\<lparr>m_socket_client := Reset E w,
              trace := trace s @
                [CallSend (object_bytes (byte_order E) sz) sizeof_size_t, CallReset]\<rparr>)"
  using assms
  by (simp add: SendDataPacket_def call_Send_def call_Reset_def observe_def)

lemma SendDataPacket_header_sent:
  assumes "Send E (object_bytes (byte_order E) sz) sizeof_size_t (m_socket_client s) =
             ((n, msg), w)"
    and "n \<noteq> - 1"
  shows "SendDataPacket E packet sz s =
           (case Send E packet sz w of
              ((n2, msg2), w2) \<Rightarrow>
                if n2 = - 1 then
                  ((- 1, ''Error in writing payload to Camera VHal: '' @ msg2),
                   s\<lparr>m_socket_client := Reset E w2,
                     trace := trace s @
                       [CallSend (object_bytes (byte_order E) sz) sizeof_size_t,
                        CallSend packet sz, CallReset]\<rparr>)
                else
                  ((n2, msg2),
                   s\<lparr>m_socket_client := w2,
                     trace := trace s @
                       [CallSend (object_bytes (byte_order E) sz) sizeof_size_t,
                        CallSend packet sz]\<rparr>))"
  using assms
  by (simp add: SendDataPacket_def call_Send_def call_Reset_def observe_def split: prod.splits)


section \<open>The talker thread, case by case\<close>

lemma poll_pass_failed:
  assumes "poll E fd POLLIN timeout_ms (m_socket_client s) = ((- 1, revents, errno), w1)"
  shows "poll_pass E fd s =
           (Throw (system_error errno),
            s\<lparr>m_socket_client := w1, trace := trace s @ [CallPoll fd POLLIN timeout_ms]\<rparr>)"
  using assms by (simp add: poll_pass_def call_poll_def observe_def)

lemma poll_pass_timeout:
  assumes "poll E fd POLLIN timeout_ms (m_socket_client s) = ((0, revents, errno), w1)"
  shows "poll_pass E fd s =
           (Continue,
            s\<lparr>m_socket_client := w1, trace := trace s @ [CallPoll fd POLLIN timeout_ms]\<rparr>)"
  using assms by (simp add: poll_pass_def call_poll_def observe_def)

lemma poll_pass_short_read:
  assumes "poll E fd POLLIN timeout_ms (m_socket_client s) = ((ret, revents, errno), w1)"
    and "ret \<noteq> - 1" and "ret \<noteq> 0" and "revents AND POLLIN \<noteq> 0"
    and "Recv E sizeof_CtrlMessage w1 = ((received, recv_err_msg, data), w2)"
    and "received \<noteq> sizeof_CtrlMessage"
  shows "poll_pass E fd s =
           (Break,
            s\<lparr>m_socket_client := Reset E w2,
              trace := trace s @
                [CallPoll fd POLLIN timeout_ms,
                 Cout (''Camera VHal has some message for us!'' @ [CHR 0x0A]),
                 CallRecv sizeof_CtrlMessage,
                 Cout (''Failed to read message from VideoSink: '' @ recv_err_msg @
                       '', reset the connection.'' @ [CHR 0x0A]),
                 CallReset]\<rparr>)"
  using assms
  by (simp add: poll_pass_def call_poll_def call_Recv_def call_Reset_def cout_def observe_def)

lemma poll_pass_full_read:
  assumes "poll E fd POLLIN timeout_ms (m_socket_client s) = ((ret, revents, errno), w1)"
    and "ret \<noteq> - 1" and "ret \<noteq> 0" and "revents AND POLLIN \<noteq> 0"
    and "Recv E sizeof_CtrlMessage w1 = ((sizeof_CtrlMessage, recv_err_msg, data), w2)"
  shows "poll_pass E fd s =
           (let s2 = s\<lparr>m_socket_client := w2,
                       trace := trace s @
                         [CallPoll fd POLLIN timeout_ms,
                          Cout (''Camera VHal has some message for us!'' @ [CHR 0x0A]),
                          CallRecv sizeof_CtrlMessage]\<rparr>
            in case m_callback s of
                 None \<Rightarrow> (Throw bad_function_call, s2)
               | Some h \<Rightarrow>
                   (Continue,
                    s2\<lparr>trace := trace s2 @
                      [Invoke h (CtrlMessage_of_bytes (byte_order E)
                         (store_bytes data
                            (CtrlMessage_bytes (byte_order E) default_CtrlMessage)))]\<rparr>))"
  using assms
  by (simp add: poll_pass_def call_poll_def call_Recv_def cout_def observe_def Let_def
           split: option.splits)

lemma thread_in_reader_Suc:
  "thread_in_reader E fd (Suc n) s =
     (case poll_pass E fd s of
        (Continue, s1) \<Rightarrow> after_reader (talker_thread E (Suc n)) (reader_loop E fd n s1)
      | (Break, s1) \<Rightarrow> talker_thread E (Suc n) s1
      | (Throw f, s1) \<Rightarrow> (Some (Terminated f), s1))"
  by (simp add: thread_in_reader_def after_reader_def split: prod.splits flow.splits)

lemma connect_step_fails:
  assumes "\<not> Connected E (m_socket_client s)"
    and "\<not> fst (fst (Connect E (m_socket_client s)))"
  shows "connect_step E s =
           (False,
            s\<lparr>m_socket_client := snd (Connect E (m_socket_client s)),
              trace := trace s @ retries E 1 (m_socket_client s)\<rparr>)"
proof -
  obtain c m w where c: "Connect E (m_socket_client s) = ((c, m), w)"
    by (metis surj_pair)
  with assms show ?thesis
    by (simp add: connect_step_def call_Connected_def call_Connect_def cout_def sleep_for_def
          observe_def)
qed

lemma connect_step_connects:
  assumes "\<not> Connected E (m_socket_client s)"
    and "fst (fst (Connect E (m_socket_client s)))"
  shows "connect_step E s =
           (True,
            s\<lparr>m_socket_client := snd (Connect E (m_socket_client s)),
              trace := trace s @ [CallConnected, CallConnect]\<rparr>)"
proof -
  obtain c m w where c: "Connect E (m_socket_client s) = ((c, m), w)"
    by (metis surj_pair)
  with assms show ?thesis
    by (simp add: connect_step_def call_Connected_def call_Connect_def cout_def sleep_for_def
          observe_def)
qed

lemma connect_step_connected:
  assumes "Connected E (m_socket_client s)"
  shows "connect_step E s = (True, s\<lparr>trace := trace s @ [CallConnected]\<rparr>)"
  using assms by (simp add: connect_step_def call_Connected_def observe_def)

text \<open>
  With a transport that is connected, one iteration of the outer loop takes the thread
  into the inner loop on the transport's descriptor.
\<close>

lemma talker_thread_connected:
  assumes "m_should_continue s" and "Connected E (m_socket_client s)"
  shows "talker_thread E (Suc n) s =
           thread_in_reader E (GetNativeSocketFd E (m_socket_client s)) n
             (s\<lparr>trace := trace s @
                  [CallConnected, Cout ('' Connected to Camera VHal!'' @ [CHR 0x0A]),
                   CallGetNativeSocketFd]\<rparr>)"
  using assms
  by (simp add: connect_step_connected connected_part_def call_GetNativeSocketFd_def cout_def
        observe_def thread_in_reader_def)

lemma talker_thread_retries:
  assumes "m_should_continue s" and "fails_then_connects E k (m_socket_client s)"
  shows "talker_thread E (Suc (k + n)) s =
           after_reader (talker_thread E n)
             (connected_part E n
                (s\<lparr>m_socket_client := after_connects E (Suc k) (m_socket_client s),
                   trace := trace s @ retries E k (m_socket_client s) @
                            [CallConnected, CallConnect]\<rparr>))"
  using assms
proof (induction k arbitrary: s)
  case 0
  then show ?case by (simp add: connect_step_connects)
next
  case (Suc k)
  let ?s1 = "s\<lparr>m_socket_client := snd (Connect E (m_socket_client s)),
               trace := trace s @ retries E 1 (m_socket_client s)\<rparr>"
  from Suc.prems have step: "connect_step E s = (False, ?s1)"
    by (simp add: connect_step_fails)
  from Suc.prems have "talker_thread E (Suc (Suc k + n)) s = talker_thread E (Suc (k + n)) ?s1"
    by (simp add: step del: retries.simps)
  also have "\<dots> = after_reader (talker_thread E n)
             (connected_part E n
                (?s1\<lparr>m_socket_client := after_connects E (Suc k) (m_socket_client ?s1),
                   trace := trace ?s1 @ retries E k (m_socket_client ?s1) @
                            [CallConnected, CallConnect]\<rparr>))"
    using Suc.prems by (intro Suc.IH) simp_all
  finally show ?case by simp
qed

lemma count_retries_connect: "count_list (retries E k w) CallConnect = k"
  by (induction k arbitrary: w) simp_all

lemma count_retries_sleep: "count_list (retries E k w) (SleepFor 33) = k"
  by (induction k arbitrary: w) simp_all

text \<open>The destructor's store is seen at the head of the outer loop, and only there.\<close>

lemma destroy_at_head_returns:
  "destroy_at_head E (Suc n) s = (Some Returned, s\<lparr>m_should_continue := False\<rparr>)"
  by (simp add: destroy_at_head_def)

lemma poll_pass_idle:
  "poll_script (m_socket_client s) = [] \<Longrightarrow>
   poll_pass (scripted e) fd s =
     (Continue, s\<lparr>trace := trace s @ [CallPoll fd POLLIN timeout_ms]\<rparr>)"
  by (simp add: poll_pass_def call_poll_def observe_def scripted_def)

lemma reader_loop_idle:
  "poll_script (m_socket_client s) = [] \<Longrightarrow>
   reader_loop (scripted e) fd n s =
     (None, s\<lparr>trace := trace s @ replicate n (CallPoll fd POLLIN timeout_ms)\<rparr>)"
proof (induction n arbitrary: s)
  case 0
  then show ?case by simp
next
  case (Suc n)
  then show ?case by (simp add: poll_pass_idle replicate_app_Cons_same)
qed

lemma poll_pass_ignores_flag:
  "poll_pass E fd (s\<lparr>m_should_continue := b\<rparr>) =
     (fst (poll_pass E fd s), (snd (poll_pass E fd s))\<lparr>m_should_continue := b\<rparr>)"
proof -
  obtain ret revents errno w1
    where p: "poll E fd POLLIN timeout_ms (m_socket_client s) = ((ret, revents, errno), w1)"
    by (metis surj_pair)
  obtain received msg data w2
    where r: "Recv E sizeof_CtrlMessage w1 = ((received, msg, data), w2)"
    by (metis surj_pair)
  from p r show ?thesis
    by (cases "m_callback s")
       (simp_all add: poll_pass_def call_poll_def call_Recv_def call_Reset_def cout_def
          observe_def Let_def)
qed

text \<open>The inner loop never reads \<^verbatim>\<open>should_continue_\<close>: its value changes nothing there.\<close>

lemma reader_loop_ignores_flag:
  "reader_loop E fd n (s\<lparr>m_should_continue := b\<rparr>) =
     (fst (reader_loop E fd n s), (snd (reader_loop E fd n s))\<lparr>m_should_continue := b\<rparr>)"
proof (induction n arbitrary: s)
  case 0
  then show ?case by simp
next
  case (Suc n)
  obtain f s1 where p: "poll_pass E fd s = (f, s1)"
    by (cases "poll_pass E fd s")
  then have q: "poll_pass E fd (s\<lparr>m_should_continue := b\<rparr>) = (f, s1\<lparr>m_should_continue := b\<rparr>)"
    by (simp add: poll_pass_ignores_flag)
  show ?case
    by (cases f) (simp_all add: p q Suc.IH)
qed

section \<open>A larger bound changes no result\<close>

text \<open>
  The bound on the loops only cuts runs off: a loop that has ended, or a thread that has
  returned or terminated, within \<open>n\<close> has the same result within every larger bound.
\<close>

lemma reader_loop_more:
  "reader_loop E fd n s = (Some f, s') \<Longrightarrow> reader_loop E fd (n + m) s = (Some f, s')"
proof (induction n arbitrary: s)
  case 0
  then show ?case by simp
next
  case (Suc n)
  obtain g s1 where p: "poll_pass E fd s = (g, s1)"
    by (cases "poll_pass E fd s")
  show ?case
  proof (cases g)
    case Continue
    with p Suc.prems have "reader_loop E fd n s1 = (Some f, s')" by simp
    then have "reader_loop E fd (n + m) s1 = (Some f, s')" by (rule Suc.IH)
    with p Continue show ?thesis by simp
  next
    case Break
    with p Suc.prems show ?thesis by auto
  next
    case (Throw e)
    with p Suc.prems show ?thesis by auto
  qed
qed

lemma talker_thread_more:
  "talker_thread E n s = (Some r, s') \<Longrightarrow> talker_thread E (n + m) s = (Some r, s')"
proof (induction n arbitrary: s)
  case 0
  then show ?case by simp
next
  case (Suc n)
  show ?case
  proof (cases "m_should_continue s")
    case False
    with Suc.prems show ?thesis by simp
  next
    case True
    obtain c s1 where cs: "connect_step E s = (c, s1)"
      by (cases "connect_step E s")
    show ?thesis
    proof (cases c)
      case False
      with True cs Suc.prems have "talker_thread E n s1 = (Some r, s')" by simp
      then have "talker_thread E (n + m) s1 = (Some r, s')" by (rule Suc.IH)
      with True cs False show ?thesis by simp
    next
      case c: True
      obtain fd s2
        where g: "call_GetNativeSocketFd E
                    (cout ('' Connected to Camera VHal!'' @ [CHR 0x0A]) s1) = (fd, s2)"
        by (metis surj_pair)
      obtain x s3 where rl: "reader_loop E fd n s2 = (x, s3)"
        by (cases "reader_loop E fd n s2")
      from True cs c Suc.prems g rl
      have a: "after_reader (talker_thread E n) (x, s3) = (Some r, s')"
        by (simp add: connected_part_def)
      then obtain f where x: "x = Some f"
        by (cases x) (simp_all add: after_reader_def)
      with rl have rl': "reader_loop E fd (n + m) s2 = (Some f, s3)"
        by (simp add: reader_loop_more)
      have "after_reader (talker_thread E (n + m)) (Some f, s3) = (Some r, s')"
      proof (cases f)
        case (Throw e)
        with a x show ?thesis by (simp add: after_reader_def)
      next
        case Break
        with a x have "talker_thread E n s3 = (Some r, s')" by (simp add: after_reader_def)
        then have "talker_thread E (n + m) s3 = (Some r, s')" by (rule Suc.IH)
        with Break show ?thesis by (simp add: after_reader_def)
      next
        case Continue
        with a x have "talker_thread E n s3 = (Some r, s')" by (simp add: after_reader_def)
        then have "talker_thread E (n + m) s3 = (Some r, s')" by (rule Suc.IH)
        with Continue show ?thesis by (simp add: after_reader_def)
      qed
      with True cs c g rl' show ?thesis
        by (simp add: connected_part_def)
    qed
  qed
qed

section \<open>Evaluating the examples\<close>

lemmas run_simps =
  SendDataPacket_def SendRawPacket_def call_Send_def call_Recv_def call_Reset_def call_poll_def
  call_Connected_def call_Connect_def call_GetNativeSocketFd_def observe_def cout_def
  sleep_for_def scripted_def online_def offline_def Impl_new_def sizeof_size_t_def
  sizeof_CtrlMessage_def

lemma header_of_3:
  "object_bytes LittleEndian (3 :: size_t) = [3, 0, 0, 0, 0, 0, 0, 0]"
  "object_bytes BigEndian (3 :: size_t) = [0, 0, 0, 0, 0, 0, 0, 3]"
  by (simp_all add: object_bytes_def le_bytes_def upt_rec)

section \<open>Properties of the packet framing\<close>

text \<open>
  C1, as amended. On every transport and for every payload \<open>(packet, sz)\<close> for which the
  header write does not return \<open>-1\<close>, \<open>SendDataPacket\<close> issues exactly two transport
  writes, in order and after whatever was written before: first the header, which is the
  \<^verbatim>\<open>sizeof(size)\<close> = 8 bytes of \<open>sz\<close> in the platform's byte order (reading them back
  gives \<open>sz\<close>), then the payload with length \<open>sz\<close>. No other write occurs in the call.
  As stated for every connected transport the property fails, since a failing header write
  ends the call (the counterexample below).
\<close>

theorem SendDataPacket_two_writes:
  assumes "fst (fst (Send E (object_bytes (byte_order E) sz) sizeof_size_t (m_socket_client s)))
             \<noteq> - 1"
  shows "sends (trace (snd (SendDataPacket E packet sz s))) =
           sends (trace s) @ [(object_bytes (byte_order E) sz, sizeof_size_t), (packet, sz)] \<and>
         length (object_bytes (byte_order E) sz) = unat sizeof_size_t \<and>
         object_word (byte_order E) (object_bytes (byte_order E) sz) = sz"
proof -
  obtain n msg w
    where h: "Send E (object_bytes (byte_order E) sz) sizeof_size_t (m_socket_client s) =
                ((n, msg), w)"
    by (metis surj_pair)
  with assms have n: "n \<noteq> - 1" by simp
  obtain n2 msg2 w2 where p: "Send E packet sz w = ((n2, msg2), w2)"
    by (metis surj_pair)
  have "sends (trace (snd (SendDataPacket E packet sz s))) =
           sends (trace s) @ [(object_bytes (byte_order E) sz, sizeof_size_t), (packet, sz)]"
    by (simp add: SendDataPacket_header_sent [OF h n] p sends_append)
  moreover have "length (object_bytes (byte_order E) sz) = unat sizeof_size_t"
    by (simp add: length_object_bytes sizeof_size_t_def)
  moreover have "object_word (byte_order E) (object_bytes (byte_order E) sz) = sz"
    by (simp add: object_word_object_bytes)
  ultimately show ?thesis by simp
qed

theorem SendDataPacket_two_writes_witness:
  "fst (fst (Send (scripted LittleEndian) (object_bytes (byte_order (scripted LittleEndian)) 3)
               sizeof_size_t (m_socket_client (Impl_new online :: (script, nat) Impl)))) \<noteq> - 1 \<and>
   sends (trace (snd (SendDataPacket (scripted LittleEndian) [1, 2, 3] 3
                        (Impl_new online :: (script, nat) Impl)))) =
     [([3, 0, 0, 0, 0, 0, 0, 0], 8), ([1, 2, 3], 3)]"
  using SendDataPacket_two_writes
          [of "scripted LittleEndian" 3 "Impl_new online :: (script, nat) Impl" "[1, 2, 3]"]
  by (simp add: run_simps header_of_3)

text \<open>
  C1 as stated fails: the scripted transport below is connected and its first write fails
  with \<open>-1\<close>; \<open>SendDataPacket\<close> then issues the header write only.
\<close>

theorem SendDataPacket_one_write_counterexample:
  "Connected (scripted LittleEndian) (online\<lparr>send_script := [(- 1, ''Broken pipe'')]\<rparr>) \<and>
   sends (trace (snd (SendDataPacket (scripted LittleEndian) [1, 2, 3] 3
            (Impl_new (online\<lparr>send_script := [(- 1, ''Broken pipe'')]\<rparr>)
               :: (script, nat) Impl)))) =
     [([3, 0, 0, 0, 0, 0, 0, 0], 8)] \<and>
   sends (trace (snd (SendDataPacket (scripted LittleEndian) [1, 2, 3] 3
            (Impl_new (online\<lparr>send_script := [(- 1, ''Broken pipe'')]\<rparr>)
               :: (script, nat) Impl)))) \<noteq>
     [(object_bytes (byte_order (scripted LittleEndian)) 3, sizeof_size_t), ([1, 2, 3], 3)]"
  by (simp add: run_simps header_of_3)

text \<open>
  C6. If the header write of \<open>SendDataPacket\<close> returns \<open>-1\<close> with message \<open>msg\<close>, the
  call returns \<open>-1\<close> with the message \<^verbatim>\<open>Error in writing payload size to Camera VHal: \<close>
  followed by \<open>msg\<close>, which is not empty; its calls on the transport are the header write
  and then \<open>Reset\<close>, so no payload write is attempted, and the transport is left as
  \<open>Reset\<close> leaves it.
\<close>

theorem SendDataPacket_header_write_fails:
  assumes "Send E (object_bytes (byte_order E) sz) sizeof_size_t (m_socket_client s) =
             ((- 1, msg), w)"
  shows "fst (SendDataPacket E packet sz s) =
           (- 1, ''Error in writing payload size to Camera VHal: '' @ msg) \<and>
         snd (fst (SendDataPacket E packet sz s)) \<noteq> '''' \<and>
         trace (snd (SendDataPacket E packet sz s)) =
           trace s @ [CallSend (object_bytes (byte_order E) sz) sizeof_size_t, CallReset] \<and>
         m_socket_client (snd (SendDataPacket E packet sz s)) = Reset E w"
proof -
  let ?hdr = "object_bytes (byte_order E) sz"
  have run: "SendDataPacket E packet sz s =
               ((- 1, ''Error in writing payload size to Camera VHal: '' @ msg),
                s\<lparr>m_socket_client := Reset E w,
                  trace := trace s @ [CallSend ?hdr sizeof_size_t, CallReset]\<rparr>)"
    using assms by (rule SendDataPacket_header_failed)
  then have "fst (SendDataPacket E packet sz s) =
               (- 1, ''Error in writing payload size to Camera VHal: '' @ msg)"
    by simp
  moreover from this have "snd (fst (SendDataPacket E packet sz s)) \<noteq> ''''"
    by simp
  moreover from run have "trace (snd (SendDataPacket E packet sz s)) =
                            trace s @ [CallSend ?hdr sizeof_size_t, CallReset]"
    by simp
  moreover from run have "m_socket_client (snd (SendDataPacket E packet sz s)) = Reset E w"
    by simp
  ultimately show ?thesis by blast
qed

theorem SendDataPacket_header_write_fails_witness:
  "Send (scripted BigEndian) (object_bytes (byte_order (scripted BigEndian)) 3) sizeof_size_t
     (m_socket_client
        (Impl_new (online\<lparr>send_script := [(- 1, ''Broken pipe'')]\<rparr>) :: (script, nat) Impl)) =
     ((- 1, ''Broken pipe''), online\<lparr>send_script := []\<rparr>) \<and>
   SendDataPacket (scripted BigEndian) [1, 2, 3] 3
     (Impl_new (online\<lparr>send_script := [(- 1, ''Broken pipe'')]\<rparr>) :: (script, nat) Impl) =
     ((- 1, ''Error in writing payload size to Camera VHal: Broken pipe''),
      \<lparr>m_callback = None, m_socket_client = online\<lparr>connected := False\<rparr>,
       m_should_continue = True,
       trace = [CallSend [0, 0, 0, 0, 0, 0, 0, 3] 8, CallReset]\<rparr>)"
proof -
  let ?s = "Impl_new (online\<lparr>send_script := [(- 1, ''Broken pipe'')]\<rparr>) :: (script, nat) Impl"
  have h: "Send (scripted BigEndian) (object_bytes (byte_order (scripted BigEndian)) 3)
             sizeof_size_t (m_socket_client ?s) =
           ((- 1, ''Broken pipe''), online\<lparr>send_script := []\<rparr>)"
    by (simp add: run_simps)
  from SendDataPacket_header_write_fails [OF h, of "[1, 2, 3]"] h show ?thesis
    by (simp add: run_simps header_of_3)
qed

text \<open>
  C7. If the header write of \<open>SendDataPacket\<close> does not return \<open>-1\<close> and the payload
  write returns \<open>-1\<close> with message \<open>msg2\<close>, the call returns \<open>-1\<close> with the message
  \<^verbatim>\<open>Error in writing payload to Camera VHal: \<close> followed by \<open>msg2\<close>. Its calls on the
  transport are the header write, the payload write and \<open>Reset\<close>, nothing else: the header
  stays written, nothing rolls it back or repairs the framing, and the transport is left
  as \<open>Reset\<close> leaves it after both writes.
\<close>

theorem SendDataPacket_payload_write_fails:
  assumes "Send E (object_bytes (byte_order E) sz) sizeof_size_t (m_socket_client s) =
             ((n, msg), w)"
    and "n \<noteq> - 1"
    and "Send E packet sz w = ((- 1, msg2), w2)"
  shows "fst (SendDataPacket E packet sz s) =
           (- 1, ''Error in writing payload to Camera VHal: '' @ msg2) \<and>
         trace (snd (SendDataPacket E packet sz s)) =
           trace s @ [CallSend (object_bytes (byte_order E) sz) sizeof_size_t,
                      CallSend packet sz, CallReset] \<and>
         m_socket_client (snd (SendDataPacket E packet sz s)) = Reset E w2"
proof -
  let ?hdr = "object_bytes (byte_order E) sz"
  from assms(1,2)
  have "SendDataPacket E packet sz s =
          (case Send E packet sz w of
             ((n2, msg2), w2) \<Rightarrow>
               if n2 = - 1 then
                 ((- 1, ''Error in writing payload to Camera VHal: '' @ msg2),
                  s\<lparr>m_socket_client := Reset E w2,
                    trace := trace s @
                      [CallSend ?hdr sizeof_size_t, CallSend packet sz, CallReset]\<rparr>)
               else
                 ((n2, msg2),
                  s\<lparr>m_socket_client := w2,
                    trace := trace s @ [CallSend ?hdr sizeof_size_t, CallSend packet sz]\<rparr>))"
    by (rule SendDataPacket_header_sent)
  with assms(3)
  have run: "SendDataPacket E packet sz s =
               ((- 1, ''Error in writing payload to Camera VHal: '' @ msg2),
                s\<lparr>m_socket_client := Reset E w2,
                  trace := trace s @
                    [CallSend ?hdr sizeof_size_t, CallSend packet sz, CallReset]\<rparr>)"
    by simp
  show ?thesis
    unfolding run by simp
qed

theorem SendDataPacket_payload_write_fails_witness:
  "Send (scripted LittleEndian) (object_bytes (byte_order (scripted LittleEndian)) 3)
     sizeof_size_t
     (m_socket_client
        (Impl_new (online\<lparr>send_script := [(8, ''''), (- 1, ''Broken pipe'')]\<rparr>)
           :: (script, nat) Impl)) =
     ((8, ''''), online\<lparr>send_script := [(- 1, ''Broken pipe'')]\<rparr>) \<and>
   (8 :: ssize_t) \<noteq> - 1 \<and>
   Send (scripted LittleEndian) [1, 2, 3] 3 (online\<lparr>send_script := [(- 1, ''Broken pipe'')]\<rparr>) =
     ((- 1, ''Broken pipe''), online\<lparr>send_script := []\<rparr>) \<and>
   SendDataPacket (scripted LittleEndian) [1, 2, 3] 3
     (Impl_new (online\<lparr>send_script := [(8, ''''), (- 1, ''Broken pipe'')]\<rparr>)
        :: (script, nat) Impl) =
     ((- 1, ''Error in writing payload to Camera VHal: Broken pipe''),
      \<lparr>m_callback = None, m_socket_client = online\<lparr>connected := False\<rparr>,
       m_should_continue = True,
       trace = [CallSend [3, 0, 0, 0, 0, 0, 0, 0] 8, CallSend [1, 2, 3] 3, CallReset]\<rparr>)"
proof -
  let ?s = "Impl_new (online\<lparr>send_script := [(8, ''''), (- 1, ''Broken pipe'')]\<rparr>)
              :: (script, nat) Impl"
  have h: "Send (scripted LittleEndian) (object_bytes (byte_order (scripted LittleEndian)) 3)
             sizeof_size_t (m_socket_client ?s) =
           ((8, ''''), online\<lparr>send_script := [(- 1, ''Broken pipe'')]\<rparr>)"
    by (simp add: run_simps)
  have n: "(8 :: ssize_t) \<noteq> - 1" by simp
  have p: "Send (scripted LittleEndian) [1, 2, 3] 3
             (online\<lparr>send_script := [(- 1, ''Broken pipe'')]\<rparr>) =
           ((- 1, ''Broken pipe''), online\<lparr>send_script := []\<rparr>)"
    by (simp add: run_simps)
  from SendDataPacket_payload_write_fails [OF h n p] h n p show ?thesis
    by (simp add: run_simps header_of_3)
qed




section \<open>Properties of the talker thread\<close>

lemma open_720p_bytes:
  "CtrlMessage_of_bytes LittleEndian
     [1, 0, 0, 0, 11, 0, 0, 0, 0, 0, 0, 0, 1, 0, 0, 0,
      0, 0, 0, 0, 0, 0, 0, 0, 0, 0, 0, 0, 0, 0, 0, 0] = open_720p"
  by (simp add: CtrlMessage_of_bytes_def field_at_def object_word_def le_word_def open_720p_def
        upt_rec)

text \<open>
  C2. One readiness event: \<^verbatim>\<open>poll\<close> reports input and \<open>Recv\<close> returns exactly
  \<^verbatim>\<open>sizeof(CtrlMessage)\<close> = 32, having stored 32 bytes \<open>data\<close>. With a handler \<open>h\<close>
  registered, the pass through the loop body invokes \<open>h\<close> exactly once, inside the pass
  (after the receive and before the next wait) on the thread, and the loop goes on. The
  record handed over is the one decoded from \<open>data\<close>: its \<^verbatim>\<open>version\<close>, \<^verbatim>\<open>cmd\<close>,
  \<^verbatim>\<open>codec_type\<close> and \<^verbatim>\<open>resolution\<close> are the words at offsets 0, 4, 8 and 12, and its
  bytes are \<open>data\<close> again.
\<close>

theorem full_read_invokes_callback_once:
  assumes "poll E fd POLLIN timeout_ms (m_socket_client s) = ((ret, revents, errno), w1)"
    and "ret \<noteq> - 1" and "ret \<noteq> 0" and "revents AND POLLIN \<noteq> 0"
    and "Recv E sizeof_CtrlMessage w1 = ((sizeof_CtrlMessage, recv_err_msg, data), w2)"
    and "length data = unat sizeof_CtrlMessage"
    and "m_callback s = Some h"
  shows "poll_pass E fd s =
           (Continue,
            s\<lparr>m_socket_client := w2,
              trace := trace s @
                [CallPoll fd POLLIN timeout_ms,
                 Cout (''Camera VHal has some message for us!'' @ [CHR 0x0A]),
                 CallRecv sizeof_CtrlMessage,
                 Invoke h (CtrlMessage_of_bytes (byte_order E) data)]\<rparr>) \<and>
         CtrlMessage_bytes (byte_order E) (CtrlMessage_of_bytes (byte_order E) data) = data \<and>
         version (CtrlMessage_of_bytes (byte_order E) data) =
           object_word (byte_order E) (take 4 data) \<and>
         cmd (CtrlMessage_of_bytes (byte_order E) data) =
           object_word (byte_order E) (take 4 (drop 4 data)) \<and>
         codec_type (video_params (CtrlMessage_of_bytes (byte_order E) data)) =
           object_word (byte_order E) (take 4 (drop 8 data)) \<and>
         resolution (video_params (CtrlMessage_of_bytes (byte_order E) data)) =
           object_word (byte_order E) (take 4 (drop 12 data))"
proof -
  from assms(6) have len: "length data = 32"
    by (simp add: sizeof_CtrlMessage_def)
  have "poll_pass E fd s =
           (Continue,
            s\<lparr>m_socket_client := w2,
              trace := trace s @
                [CallPoll fd POLLIN timeout_ms,
                 Cout (''Camera VHal has some message for us!'' @ [CHR 0x0A]),
                 CallRecv sizeof_CtrlMessage,
                 Invoke h (CtrlMessage_of_bytes (byte_order E) data)]\<rparr>)"
    by (simp add: poll_pass_full_read [OF assms(1-5)] assms(7) received_record [OF len])
  moreover note CtrlMessage_bytes_of_bytes [OF len]
  ultimately show ?thesis
    by (simp add: CtrlMessage_of_bytes_def field_at_def)
qed

theorem full_read_invokes_callback_once_witness:
  "poll (scripted LittleEndian) 3 POLLIN timeout_ms
     (m_socket_client
        (snd (RegisterCallback (Some (7 :: nat))
           (Impl_new (online\<lparr>poll_script := [(1, 1, 0)],
              recv_script := [(32, '''',
                [1, 0, 0, 0, 11, 0, 0, 0, 0, 0, 0, 0, 1, 0, 0, 0,
                 0, 0, 0, 0, 0, 0, 0, 0, 0, 0, 0, 0, 0, 0, 0, 0])]\<rparr>))))) =
     ((1, 1, 0),
      online\<lparr>recv_script := [(32, '''',
                [1, 0, 0, 0, 11, 0, 0, 0, 0, 0, 0, 0, 1, 0, 0, 0,
                 0, 0, 0, 0, 0, 0, 0, 0, 0, 0, 0, 0, 0, 0, 0, 0])]\<rparr>) \<and>
   poll_pass (scripted LittleEndian) 3
     (snd (RegisterCallback (Some (7 :: nat))
        (Impl_new (online\<lparr>poll_script := [(1, 1, 0)],
           recv_script := [(32, '''',
             [1, 0, 0, 0, 11, 0, 0, 0, 0, 0, 0, 0, 1, 0, 0, 0,
              0, 0, 0, 0, 0, 0, 0, 0, 0, 0, 0, 0, 0, 0, 0, 0])]\<rparr>)))) =
     (Continue,
      \<lparr>m_callback = Some 7, m_socket_client = online, m_should_continue = True,
       trace = [CallPoll 3 POLLIN timeout_ms,
                Cout (''Camera VHal has some message for us!'' @ [CHR 0x0A]),
                CallRecv 32, Invoke 7 open_720p]\<rparr>)"
proof -
  let ?data = "[1, 0, 0, 0, 11, 0, 0, 0, 0, 0, 0, 0, 1, 0, 0, 0,
                0, 0, 0, 0, 0, 0, 0, 0, 0, 0, 0, 0, 0, 0, 0, 0] :: byte list"
  let ?w1 = "online\<lparr>recv_script := [(32, '''', ?data)]\<rparr>"
  let ?s = "snd (RegisterCallback (Some (7 :: nat))
              (Impl_new (online\<lparr>poll_script := [(1, 1, 0)],
                 recv_script := [(32, '''', ?data)]\<rparr>)))"
  have p: "poll (scripted LittleEndian) 3 POLLIN timeout_ms (m_socket_client ?s) =
             ((1, 1, 0), ?w1)"
    by (simp add: run_simps RegisterCallback_def)
  have r: "Recv (scripted LittleEndian) sizeof_CtrlMessage ?w1 =
             ((sizeof_CtrlMessage, '''', ?data), online)"
    by (simp add: run_simps)
  have c: "(1 :: c_int) \<noteq> - 1" "(1 :: c_int) \<noteq> 0" "(1 :: c_short) AND POLLIN \<noteq> 0"
    by (simp_all add: POLLIN_def)
  have l: "length ?data = unat sizeof_CtrlMessage"
    by (simp add: sizeof_CtrlMessage_def)
  have h: "m_callback ?s = Some 7"
    by (simp add: RegisterCallback_def)
  from full_read_invokes_callback_once [OF p c r l h] p show ?thesis
    by (simp add: run_simps RegisterCallback_def open_720p_bytes)
qed

text \<open>
  C3. One readiness event on which \<open>Recv\<close> returns a count other than
  \<^verbatim>\<open>sizeof(CtrlMessage)\<close> (fewer bytes, zero included; the code treats \<open>-1\<close> and any
  other count alike). The pass calls \<open>Recv\<close> once and then \<open>Reset\<close>, invokes no
  handler, and leaves the inner loop with \<^verbatim>\<open>break\<close>: the thread is back at the head of
  the supervisor's loop, which tests the flag and the connection anew.
\<close>

theorem short_read_resets:
  assumes "poll E fd POLLIN timeout_ms (m_socket_client s) = ((ret, revents, errno), w1)"
    and "ret \<noteq> - 1" and "ret \<noteq> 0" and "revents AND POLLIN \<noteq> 0"
    and "Recv E sizeof_CtrlMessage w1 = ((received, recv_err_msg, data), w2)"
    and "received \<noteq> sizeof_CtrlMessage"
  shows "(let s' = s\<lparr>m_socket_client := Reset E w2,
                      trace := trace s @
                        [CallPoll fd POLLIN timeout_ms,
                         Cout (''Camera VHal has some message for us!'' @ [CHR 0x0A]),
                         CallRecv sizeof_CtrlMessage,
                         Cout (''Failed to read message from VideoSink: '' @ recv_err_msg @
                               '', reset the connection.'' @ [CHR 0x0A]),
                         CallReset]\<rparr>
          in poll_pass E fd s = (Break, s') \<and>
             reader_loop E fd (Suc n) s = (Some Break, s') \<and>
             thread_in_reader E fd (Suc n) s = talker_thread E (Suc n) s')"
  by (simp add: Let_def thread_in_reader_def after_reader_def poll_pass_short_read [OF assms]
        del: talker_thread.simps)

theorem short_read_resets_witness:
  "poll (scripted LittleEndian) 3 POLLIN timeout_ms
     (m_socket_client
        (snd (RegisterCallback (Some (7 :: nat))
           (Impl_new (online\<lparr>poll_script := [(1, 1, 0)]\<rparr>))))) = ((1, 1, 0), online) \<and>
   Recv (scripted LittleEndian) sizeof_CtrlMessage online =
     ((0, ''Connection closed'', []), online) \<and>
   (0 :: ssize_t) \<noteq> sizeof_CtrlMessage \<and>
   reader_loop (scripted LittleEndian) 3 (Suc 0)
     (snd (RegisterCallback (Some (7 :: nat))
        (Impl_new (online\<lparr>poll_script := [(1, 1, 0)]\<rparr>)))) =
     (Some Break,
      \<lparr>m_callback = Some 7, m_socket_client = offline, m_should_continue = True,
       trace = [CallPoll 3 POLLIN timeout_ms,
                Cout (''Camera VHal has some message for us!'' @ [CHR 0x0A]),
                CallRecv 32,
                Cout (''Failed to read message from VideoSink: Connection closed, reset the connection.'' @ [CHR 0x0A]),
                CallReset]\<rparr>)"
proof -
  let ?s = "snd (RegisterCallback (Some (7 :: nat))
              (Impl_new (online\<lparr>poll_script := [(1, 1, 0)]\<rparr>)))"
  have p: "poll (scripted LittleEndian) 3 POLLIN timeout_ms (m_socket_client ?s) =
             ((1, 1, 0), online)"
    by (simp add: run_simps RegisterCallback_def)
  have r: "Recv (scripted LittleEndian) sizeof_CtrlMessage online =
             ((0, ''Connection closed'', []), online)"
    by (simp add: run_simps)
  have c: "(1 :: c_int) \<noteq> - 1" "(1 :: c_int) \<noteq> 0" "(1 :: c_short) AND POLLIN \<noteq> 0"
    by (simp_all add: POLLIN_def)
  have n: "(0 :: ssize_t) \<noteq> sizeof_CtrlMessage"
    by (simp add: sizeof_CtrlMessage_def)
  from short_read_resets [OF p c r n, of 0] p r n show ?thesis
    by (simp add: run_simps RegisterCallback_def Let_def)
qed

text \<open>
  C5. For every \<open>k\<close>, on a transport whose \<open>Connect\<close> fails \<open>k\<close> times and then
  succeeds, the running thread makes exactly \<open>k + 1\<close> connect attempts, sleeps the fixed
  33 ms after each of the \<open>k\<close> failures (\<open>retries\<close> lists a failing round as the
  connection test, the attempt, the diagnostic line and the sleep), and calls neither
  \<^verbatim>\<open>poll\<close> nor \<open>Recv\<close> meanwhile; right after the succeeding attempt it is at the
  connected part of the loop body, where the read phase starts. Nothing bounds \<open>k\<close>.
\<close>

theorem connect_retried_until_success:
  assumes "m_should_continue s" and "fails_then_connects E k (m_socket_client s)"
  shows "(let attempts = retries E k (m_socket_client s) @ [CallConnected, CallConnect]
          in talker_thread E (Suc (k + n)) s =
               after_reader (talker_thread E n)
                 (connected_part E n
                    (s\<lparr>m_socket_client := after_connects E (Suc k) (m_socket_client s),
                       trace := trace s @ attempts\<rparr>)) \<and>
             count_list attempts CallConnect = Suc k \<and>
             count_list attempts (SleepFor 33) = k \<and>
             count_list attempts (CallPoll fd events timeout) = 0 \<and>
             count_list attempts (CallRecv len) = 0)"
proof -
  have "count_list (retries E k w :: 'b event list) (CallPoll fd events timeout) = 0" for w
    by (induction k arbitrary: w) simp_all
  moreover have "count_list (retries E k w :: 'b event list) (CallRecv len) = 0" for w
    by (induction k arbitrary: w) simp_all
  ultimately show ?thesis
    using talker_thread_retries [OF assms, of n]
    by (simp add: Let_def count_retries_connect count_retries_sleep
          del: talker_thread.simps)
qed

theorem connect_retried_until_success_witness:
  "m_should_continue
     (Impl_new (offline\<lparr>connect_script :=
        [(False, ''No such file''), (False, ''Connection refused''), (True, '''')]\<rparr>)
        :: (script, nat) Impl) \<and>
   fails_then_connects (scripted LittleEndian) 2
     (m_socket_client
        (Impl_new (offline\<lparr>connect_script :=
           [(False, ''No such file''), (False, ''Connection refused''), (True, '''')]\<rparr>)
           :: (script, nat) Impl)) \<and>
   talker_thread (scripted LittleEndian) (Suc (2 + 1))
     (Impl_new (offline\<lparr>connect_script :=
        [(False, ''No such file''), (False, ''Connection refused''), (True, '''')]\<rparr>)
        :: (script, nat) Impl) =
     (None,
      \<lparr>m_callback = None, m_socket_client = online, m_should_continue = True,
       trace =
         [CallConnected, CallConnect,
          Cout (''Failed to connect to VHal: No such file. Retry after 3ms...'' @ [CHR 0x0A]),
          SleepFor 33,
          CallConnected, CallConnect,
          Cout (''Failed to connect to VHal: Connection refused. Retry after 3ms...'' @
                [CHR 0x0A]),
          SleepFor 33,
          CallConnected, CallConnect,
          Cout ('' Connected to Camera VHal!'' @ [CHR 0x0A]),
          CallGetNativeSocketFd,
          CallPoll 3 POLLIN timeout_ms]\<rparr>)"
proof -
  let ?s = "Impl_new (offline\<lparr>connect_script :=
              [(False, ''No such file''), (False, ''Connection refused''), (True, '''')]\<rparr>)
              :: (script, nat) Impl"
  have a: "m_should_continue ?s"
    by (simp add: Impl_new_def)
  have two: "(2 :: nat) = Suc (Suc 0)" by simp
  have b: "fails_then_connects (scripted LittleEndian) 2 (m_socket_client ?s)"
    unfolding two by (simp add: run_simps)
  from connect_retried_until_success [OF a b, of 1] a b show ?thesis
    unfolding two
    by (simp add: run_simps Let_def after_reader_def connected_part_def poll_pass_def)
qed

text \<open>
  C8. If \<^verbatim>\<open>poll\<close> returns \<open>-1\<close>, the pass throws \<^verbatim>\<open>system_error\<close> with \<^verbatim>\<open>errno\<close>, the
  inner loop is left by that exception and the thread ends with the process terminated.
  The last call made is that \<^verbatim>\<open>poll\<close>: there is no \<open>Reset\<close>, no second \<^verbatim>\<open>poll\<close> and
  no further connection test or connect attempt.
\<close>

theorem poll_error_terminates:
  assumes "poll E fd POLLIN timeout_ms (m_socket_client s) = ((- 1, revents, errno), w1)"
  shows "(let s' = s\<lparr>m_socket_client := w1,
                      trace := trace s @ [CallPoll fd POLLIN timeout_ms]\<rparr>
          in poll_pass E fd s = (Throw (system_error errno), s') \<and>
             reader_loop E fd (Suc n) s = (Some (Throw (system_error errno)), s') \<and>
             thread_in_reader E fd (Suc n) s = (Some (Terminated (system_error errno)), s'))"
  by (simp add: Let_def thread_in_reader_def after_reader_def poll_pass_failed [OF assms]
        del: talker_thread.simps)

theorem poll_error_terminates_witness:
  "poll (scripted LittleEndian) 3 POLLIN timeout_ms
     (m_socket_client (Impl_new (online\<lparr>poll_script := [(- 1, 0, 4)]\<rparr>) :: (script, nat) Impl)) =
     ((- 1, 0, 4), online) \<and>
   talker_thread (scripted LittleEndian) (Suc (Suc 0))
     (Impl_new (online\<lparr>poll_script := [(- 1, 0, 4)]\<rparr>) :: (script, nat) Impl) =
     (Some (Terminated (system_error 4)),
      \<lparr>m_callback = None, m_socket_client = online, m_should_continue = True,
       trace = [CallConnected, Cout ('' Connected to Camera VHal!'' @ [CHR 0x0A]),
                CallGetNativeSocketFd, CallPoll 3 POLLIN timeout_ms]\<rparr>)"
proof -
  let ?s = "Impl_new (online\<lparr>poll_script := [(- 1, 0, 4)]\<rparr>) :: (script, nat) Impl"
  let ?s1 = "?s\<lparr>trace := trace ?s @
               [CallConnected, Cout ('' Connected to Camera VHal!'' @ [CHR 0x0A]),
                CallGetNativeSocketFd]\<rparr>"
  have p: "poll (scripted LittleEndian) 3 POLLIN timeout_ms (m_socket_client ?s1) =
             ((- 1, 0, 4), online)"
    by (simp add: run_simps)
  have t: "talker_thread (scripted LittleEndian) (Suc (Suc 0)) ?s =
             thread_in_reader (scripted LittleEndian) 3 (Suc 0) ?s1"
    by (subst talker_thread_connected) (simp_all add: run_simps)
  from poll_error_terminates [OF p, of 0] p show ?thesis
    unfolding t by (simp add: run_simps Let_def)
qed

text \<open>
  C10. The constructor leaves the stored handler empty; \<open>RegisterCallback\<close> stores its
  argument whatever it is and returns \<open>True\<close>; and when a full control record is read
  while the stored handler is empty, the reader does not skip the dispatch: it calls the
  empty handler, which throws \<^verbatim>\<open>bad_function_call\<close> and terminates the process.
\<close>

theorem null_callback_is_invoked:
  assumes "poll E fd POLLIN timeout_ms (m_socket_client s) = ((ret, revents, errno), w1)"
    and "ret \<noteq> - 1" and "ret \<noteq> 0" and "revents AND POLLIN \<noteq> 0"
    and "Recv E sizeof_CtrlMessage w1 = ((sizeof_CtrlMessage, recv_err_msg, data), w2)"
    and "m_callback s = None"
  shows "(let s' = s\<lparr>m_socket_client := w2,
                      trace := trace s @
                        [CallPoll fd POLLIN timeout_ms,
                         Cout (''Camera VHal has some message for us!'' @ [CHR 0x0A]),
                         CallRecv sizeof_CtrlMessage]\<rparr>
          in m_callback (Impl_new w0 :: ('a, 'b) Impl) = None \<and>
             RegisterCallback cb s = (True, s\<lparr>m_callback := cb\<rparr>) \<and>
             poll_pass E fd s = (Throw bad_function_call, s') \<and>
             thread_in_reader E fd (Suc n) s = (Some (Terminated bad_function_call), s'))"
  by (simp add: Let_def thread_in_reader_def after_reader_def Impl_new_def RegisterCallback_def
        poll_pass_full_read [OF assms(1-5)] assms(6) del: talker_thread.simps)

theorem null_callback_is_invoked_witness:
  "poll (scripted LittleEndian) 3 POLLIN timeout_ms
     (m_socket_client
        (Impl_new (online\<lparr>poll_script := [(1, 1, 0)],
           recv_script := [(32, '''', CtrlMessage_bytes LittleEndian open_720p)]\<rparr>)
           :: (script, nat) Impl)) =
     ((1, 1, 0),
      online\<lparr>recv_script := [(32, '''', CtrlMessage_bytes LittleEndian open_720p)]\<rparr>) \<and>
   m_callback
     (Impl_new (online\<lparr>poll_script := [(1, 1, 0)],
        recv_script := [(32, '''', CtrlMessage_bytes LittleEndian open_720p)]\<rparr>)
        :: (script, nat) Impl) = None \<and>
   thread_in_reader (scripted LittleEndian) 3 (Suc 0)
     (Impl_new (online\<lparr>poll_script := [(1, 1, 0)],
        recv_script := [(32, '''', CtrlMessage_bytes LittleEndian open_720p)]\<rparr>)
        :: (script, nat) Impl) =
     (Some (Terminated bad_function_call),
      \<lparr>m_callback = None, m_socket_client = online, m_should_continue = True,
       trace = [CallPoll 3 POLLIN timeout_ms,
                Cout (''Camera VHal has some message for us!'' @ [CHR 0x0A]),
                CallRecv 32]\<rparr>)"
proof -
  let ?w1 = "online\<lparr>recv_script := [(32, '''', CtrlMessage_bytes LittleEndian open_720p)]\<rparr>"
  let ?s = "Impl_new (online\<lparr>poll_script := [(1, 1, 0)],
              recv_script := [(32, '''', CtrlMessage_bytes LittleEndian open_720p)]\<rparr>)
              :: (script, nat) Impl"
  have p: "poll (scripted LittleEndian) 3 POLLIN timeout_ms (m_socket_client ?s) =
             ((1, 1, 0), ?w1)"
    by (simp add: run_simps)
  have r: "Recv (scripted LittleEndian) sizeof_CtrlMessage ?w1 =
             ((sizeof_CtrlMessage, '''', CtrlMessage_bytes LittleEndian open_720p), online)"
    by (simp add: run_simps)
  have c: "(1 :: c_int) \<noteq> - 1" "(1 :: c_int) \<noteq> 0" "(1 :: c_short) AND POLLIN \<noteq> 0"
    by (simp_all add: POLLIN_def)
  have h: "m_callback ?s = None"
    by (simp add: Impl_new_def)
  from null_callback_is_invoked [OF p c r h, of _ _ 0] p h show ?thesis
    by (simp add: run_simps Let_def)
qed

text \<open>
  C4, that the thread sees the destructor's store and exits within one poll timeout plus
  one backoff whether or not the transport is connected, fails on the code. The
  destructor runs while the thread waits in the inner loop on a connected transport with
  no traffic, so that every \<^verbatim>\<open>poll\<close> times out. After each
  timeout \<^verbatim>\<open>continue\<close> goes back to \<^verbatim>\<open>poll\<close> without a look at the flag: whatever the
  bound \<open>n\<close>, the thread has made \<open>n\<close> further waits and is still running, and
  \<^verbatim>\<open>join\<close> has not returned. (At the head of the outer loop the store is seen at once:
  \<open>destroy_at_head_returns\<close>.)
\<close>

theorem destroy_in_idle_reader_never_returns:
  "destroy_in_reader (scripted e) fd n (Impl_new online :: (script, 'h) Impl) =
     (None,
      \<lparr>m_callback = None, m_socket_client = online, m_should_continue = False,
       trace = replicate n (CallPoll fd POLLIN timeout_ms)\<rparr>)"
  by (simp add: destroy_in_reader_def thread_in_reader_def after_reader_def reader_loop_idle
        Impl_new_def online_def)

end
